theory Spec2Isabelle
  imports
    Main
    "HOL-Library.Log_Nat"
    "HOL-Library.Char_ord"
    "HOL-Library.List_Lexorder"
    "HOL-Library.Product_Lexorder"
begin

section \<open>Data model (types.ts)\<close>

datatype ConversionStatus = PENDING | PROCESSING | COMPLETED | FAILED

datatype ErrorType =
  FILE_READ_ERROR | IMAGE_LOAD_ERROR | CONVERSION_ERROR | STORAGE_ERROR | DOWNLOAD_ERROR

text \<open>
  The class \<open>ConversionError\<close>: an error type and a message. The messages of the source
  are Chinese literals; they are kept here as named constants with an English rendering,
  since only their identity matters.
\<close>

record ConversionError =
  errorType :: ErrorType
  message :: string

text \<open>The browser's \<open>File\<close>: only the attributes the services read.\<close>

record File =
  name :: string
  type_f :: string
  size_f :: nat

text \<open>
  \<open>Date\<close> values are milliseconds as natural numbers; an optional field of the
  interface is an \<open>option\<close>. The task's \<open>progress\<close> only ever holds the integers
  the service writes.
\<close>

record ConversionTask =
  id_t :: string
  file_t :: File
  fileName :: string
  fileSize :: nat
  status :: ConversionStatus
  progress :: int
  svgContent :: "string option"
  error :: "string option"
  createdAt :: nat
  completedAt :: "nat option"

subsection \<open>JavaScript numbers\<close>

text \<open>
  \<open>totalProgress\<close> is the result of \<open>Math.round((completedTasks / length) * 100)\<close>, a
  computation on IEEE 754 doubles. A number is \<open>NaN\<close>, \<open>Infinity\<close> or a finite
  double, the latter given by its exact rational value. \<open>toDouble\<close> rounds a rational to
  the nearest double (53 significant bits, ties to even). Overflow and subnormal numbers
  are out of reach here: the operands are array lengths (below \<open>2^32\<close>) and \<open>100\<close>.
\<close>

datatype number = NaN | Infinity | Num rat

definition binade :: "rat \<Rightarrow> int" where
  \<comment> \<open>for \<open>q > 0\<close>, the exponent \<open>e\<close> with \<open>2^e \<le> q < 2^(e+1)\<close>\<close>
  "binade q = (let (a, b) = quotient_of q; d = bitlen a - bitlen b
               in if 2 powi d \<le> q then d else d - 1)"

definition roundTiesToEven :: "rat \<Rightarrow> int" where
  "roundTiesToEven m = (let r = \<lfloor>m\<rfloor>; f = m - of_int r
     in if f < 1 / 2 then r else if 1 / 2 < f then r + 1 else if even r then r else r + 1)"

definition toDouble :: "rat \<Rightarrow> rat" where
  "toDouble q = (if q = 0 then 0
     else (let u = 2 powi (binade \<bar>q\<bar> - 52)
           in sgn q * of_int (roundTiesToEven (\<bar>q\<bar> / u)) * u))"

definition js_divide :: "nat \<Rightarrow> nat \<Rightarrow> number" where
  \<comment> \<open>\<open>a / b\<close> on two array lengths\<close>
  "js_divide a b =
     (if b = 0 then (if a = 0 then NaN else Infinity)
      else Num (toDouble (of_nat a / of_nat b)))"

fun js_times100 :: "number \<Rightarrow> number" where
  \<comment> \<open>\<open>x * 100\<close>\<close>
  "js_times100 NaN = NaN"
| "js_times100 Infinity = Infinity"
| "js_times100 (Num x) = Num (toDouble (x * 100))"

fun Math_round :: "number \<Rightarrow> number" where
  \<comment> \<open>the nearest integer, a tie going up\<close>
  "Math_round NaN = NaN"
| "Math_round Infinity = Infinity"
| "Math_round (Num x) = Num (of_int \<lfloor>x + 1 / 2\<rfloor>)"

record BatchConversionTask =
  batchId :: string
  tasks :: "ConversionTask list"
  totalProgress :: number
  status_b :: ConversionStatus
  createdAt_b :: nat
  completedAt_b :: "nat option"

section \<open>SvgTemplateService (svg-template.ts)\<close>

definition supportedTypes :: "string list" where
  "supportedTypes =
     [''image/jpeg'', ''image/jpg'', ''image/png'', ''image/gif'', ''image/webp'',
      ''image/bmp'', ''image/svg+xml'']"

definition validateImageFile :: "File \<Rightarrow> bool" where
  "validateImageFile f = (type_f f \<in> set supportedTypes)"

fun lastIndexOf :: "string \<Rightarrow> char \<Rightarrow> nat option" where
  \<comment> \<open>\<open>None\<close> is the source's \<open>-1\<close>\<close>
  "lastIndexOf [] c = None"
| "lastIndexOf (x # xs) c =
     (case lastIndexOf xs c of
        Some i \<Rightarrow> Some (Suc i)
      | None \<Rightarrow> (if x = c then Some 0 else None))"

definition getFileNameWithoutExtension :: "string \<Rightarrow> string" where
  "getFileNameWithoutExtension fileName' =
     (case lastIndexOf fileName' (CHR ''.'') of
        None \<Rightarrow> fileName'
      | Some lastDotIndex \<Rightarrow> take lastDotIndex fileName')"

definition generateSvgFileName :: "string \<Rightarrow> string" where
  "generateSvgFileName originalFileName =
     getFileNameWithoutExtension originalFileName @ ''.svg''"

section \<open>ConversionService (conversion.ts)\<close>

subsection \<open>createTask\<close>

definition MSG_UNSUPPORTED_FORMAT :: string where
  "MSG_UNSUPPORTED_FORMAT = ''unsupported file format: ''"

text \<open>
  \<open>generateId\<close> concatenates \<open>Date.now()\<close> and a random suffix: the identifier and the
  creation date come from the environment and are parameters here.
\<close>

definition createTask :: "string \<Rightarrow> nat \<Rightarrow> File \<Rightarrow> ConversionError + ConversionTask" where
  "createTask newId date f =
     (if \<not> validateImageFile f
      then Inl \<lparr>errorType = FILE_READ_ERROR, message = MSG_UNSUPPORTED_FORMAT @ type_f f\<rparr>
      else Inr \<lparr>id_t = newId, file_t = f, fileName = getFileNameWithoutExtension (name f),
                fileSize = size_f f, status = PENDING, progress = 0, svgContent = None,
                error = None, createdAt = date, completedAt = None\<rparr>)"

subsection \<open>validateFiles of the upload component\<close>

definition maxSize :: nat where
  "maxSize = 10 * 1024 * 1024"

definition MSG_NOT_SUPPORTED_IMAGE :: string where
  "MSG_NOT_SUPPORTED_IMAGE = '' is not a supported image format''"

definition MSG_FILE_TOO_LARGE :: string where
  "MSG_FILE_TOO_LARGE = '' is too large, choose a file smaller than 10MB''"

fun validateFiles :: "File list \<Rightarrow> File list \<times> string list" where
  \<comment> \<open>the \<open>forEach\<close>, returning \<open>(validFiles, errors)\<close>\<close>
  "validateFiles [] = ([], [])"
| "validateFiles (f # files) =
     (let (validFiles, errors) = validateFiles files
      in if \<not> validateImageFile f then (validFiles, (name f @ MSG_NOT_SUPPORTED_IMAGE) # errors)
         else if size_f f > maxSize then (validFiles, (name f @ MSG_FILE_TOO_LARGE) # errors)
         else (f # validFiles, errors))"

subsection \<open>The state the conversion works on\<close>

text \<open>
  The batch object is mutated in place, together with the task objects of its array: a
  task is referred to by its position \<open>k\<close> in \<open>tasks\<close>. \<open>now\<close> is the clock that
  \<open>new Date()\<close> reads. The two optional callbacks of \<open>convertBatchTask\<close> are observers:
  \<open>onTaskProgress\<close> records the task it is given in \<open>taskLog\<close>, \<open>onBatchProgress\<close>
  records the batch in \<open>batchLog\<close>.
\<close>

record World =
  batchTask :: BatchConversionTask
  now :: nat
  taskLog :: "ConversionTask list"
  batchLog :: "BatchConversionTask list"

type_synonym ProgressCallback = "nat \<Rightarrow> World \<Rightarrow> World"

definition updateTask :: "nat \<Rightarrow> (ConversionTask \<Rightarrow> ConversionTask) \<Rightarrow> World \<Rightarrow> World" where
  \<comment> \<open>an assignment to fields of the task at position \<open>k\<close>\<close>
  "updateTask k f w =
     w\<lparr>batchTask := (batchTask w)\<lparr>tasks := (tasks (batchTask w))[k := f (tasks (batchTask w) ! k)]\<rparr>\<rparr>"

definition callOptional :: "ProgressCallback option \<Rightarrow> nat \<Rightarrow> World \<Rightarrow> World" where
  \<comment> \<open>\<open>onProgress?.(task)\<close>\<close>
  "callOptional onProgress k w = (case onProgress of None \<Rightarrow> w | Some cb \<Rightarrow> cb k w)"

text \<open>
  What a thrown value is to the \<open>catch\<close> of \<open>convertSingleTask\<close>: an \<open>Error\<close> with its
  message, or something else. The encoder call \<open>convertFileToSvg\<close> resolves with the
  document, rejects, or never settles.
\<close>

datatype thrown = ErrorObject string | OtherValue

datatype outcome = Resolved string | Rejected thrown | Pending

definition MSG_CONVERSION_FAILED :: string where
  "MSG_CONVERSION_FAILED = ''conversion failed''"

definition MSG_TASK_CANCELLED :: string where
  "MSG_TASK_CANCELLED = ''task cancelled''"

subsection \<open>convertSingleTask\<close>

definition updateProgress :: "ProgressCallback option \<Rightarrow> nat \<Rightarrow> int \<Rightarrow> World \<Rightarrow> World" where
  "updateProgress onProgress k p w =
     callOptional onProgress k (updateTask k (\<lambda>task. task\<lparr>progress := min p 100\<rparr>) w)"

text \<open>The part of \<open>convertSingleTask\<close> that runs before the \<open>await\<close> of the encoder.\<close>

definition convertSingleTask_begin :: "ProgressCallback option \<Rightarrow> nat \<Rightarrow> World \<Rightarrow> World" where
  "convertSingleTask_begin onProgress k w =
     (let w = updateTask k (\<lambda>task. task\<lparr>status := PROCESSING\<rparr>) w;
          w = updateTask k (\<lambda>task. task\<lparr>progress := 0\<rparr>) w;
          w = callOptional onProgress k w
      in updateProgress onProgress k 20 w)"

text \<open>
  The part after the \<open>await\<close>, once the encoder has settled: the rest of the \<open>try\<close>
  block when it resolved, the \<open>catch\<close> block, which throws the error again, when it
  rejected.
\<close>

fun convertSingleTask_settled ::
  "ProgressCallback option \<Rightarrow> nat \<Rightarrow> outcome \<Rightarrow> World \<Rightarrow> (thrown + unit) \<times> World" where
  "convertSingleTask_settled onProgress k (Resolved svg) w =
     (let w = updateProgress onProgress k 80 w;
          w = updateTask k (\<lambda>task. task\<lparr>svgContent := Some svg\<rparr>) w;
          w = updateTask k (\<lambda>task. task\<lparr>status := COMPLETED\<rparr>) w;
          w = updateTask k (\<lambda>task. task\<lparr>progress := 100\<rparr>) w;
          w = updateTask k (\<lambda>task. task\<lparr>completedAt := Some (now w)\<rparr>) w;
          w = updateProgress onProgress k 100 w;
          w = callOptional onProgress k w
      in (Inr (), w))"
| "convertSingleTask_settled onProgress k (Rejected e) w =
     (let w = updateTask k (\<lambda>task. task\<lparr>status := FAILED\<rparr>) w;
          w = updateTask k (\<lambda>task. task\<lparr>error :=
                Some (case e of ErrorObject m \<Rightarrow> m | OtherValue \<Rightarrow> MSG_CONVERSION_FAILED)\<rparr>) w;
          w = callOptional onProgress k w
      in (Inl e, w))"
| "convertSingleTask_settled onProgress k Pending w = (Inr (), w)"

text \<open>
  The whole call, for an encoder that settles at time \<open>t\<close>: \<open>None\<close> when the encoder
  never settles, since the promise of \<open>convertSingleTask\<close> then never settles either.
\<close>

definition advance :: "nat \<Rightarrow> World \<Rightarrow> World" where
  "advance t w = w\<lparr>now := max (now w) t\<rparr>"

definition convertSingleTask ::
  "ProgressCallback option \<Rightarrow> outcome \<Rightarrow> nat \<Rightarrow> nat \<Rightarrow> World \<Rightarrow> ((thrown + unit) \<times> World) option" where
  "convertSingleTask onProgress out t k w =
     (if out = Pending then None
      else Some (convertSingleTask_settled onProgress k out
                   (advance t (convertSingleTask_begin onProgress k w))))"

subsection \<open>convertBatchTask\<close>

text \<open>
  The environment of a run: \<open>navigator.hardwareConcurrency\<close> (which may be undefined),
  how the encoder call of the task at position \<open>k\<close> settles, and when.
\<close>

record Env =
  hardwareConcurrency :: "nat option"
  convertFileToSvg :: "nat \<Rightarrow> outcome"
  settleTime :: "nat \<Rightarrow> nat"

definition maxWorkers :: "Env \<Rightarrow> nat" where
  \<comment> \<open>\<open>navigator.hardwareConcurrency || 4\<close>\<close>
  "maxWorkers env =
     (case hardwareConcurrency env of None \<Rightarrow> 4 | Some n \<Rightarrow> (if n = 0 then 4 else n))"

definition updateBatchProgress :: "World \<Rightarrow> World" where
  "updateBatchProgress w =
     (let b = batchTask w;
          completedTasks =
            length (filter (\<lambda>task. status task = COMPLETED \<or> status task = FAILED) (tasks b));
          b = b\<lparr>totalProgress := Math_round (js_times100 (js_divide completedTasks (length (tasks b))))\<rparr>;
          b = (if completedTasks = length (tasks b)
               then (let hasFailedTasks = list_ex (\<lambda>task. status task = FAILED) (tasks b)
                     in b\<lparr>status_b := (if hasFailedTasks then FAILED else COMPLETED),
                          completedAt_b := Some (now w)\<rparr>)
               else b)
      in w\<lparr>batchTask := b, batchLog := batchLog w @ [b]\<rparr>)"

definition onTaskUpdated :: ProgressCallback where
  \<comment> \<open>the callback that \<open>processTask\<close> hands to \<open>convertSingleTask\<close>\<close>
  "onTaskUpdated k w =
     updateBatchProgress (w\<lparr>taskLog := taskLog w @ [tasks (batchTask w) ! k]\<rparr>)"

text \<open>
  \<open>processTask\<close>, cut at its \<open>await\<close> like \<open>convertSingleTask\<close>. Its \<open>catch\<close> logs
  the error to the console and ends normally. The result is a sum, since the promise of
  an \<open>async\<close> function may reject; the left summand carries the thrown value and the
  state at that point.
\<close>

definition processTask_begin :: "nat \<Rightarrow> World \<Rightarrow> World" where
  "processTask_begin k w = convertSingleTask_begin (Some onTaskUpdated) k w"

definition processTask_settled :: "Env \<Rightarrow> nat \<Rightarrow> World \<Rightarrow> (thrown \<times> World) + World" where
  "processTask_settled env k w =
     (case convertSingleTask_settled (Some onTaskUpdated) k (convertFileToSvg env k)
             (advance (settleTime env k) w) of
        (Inl e, w') \<Rightarrow> Inr w'
      | (Inr u, w') \<Rightarrow> Inr w')"

text \<open>
  One round of the loop on the positions \<open>ks\<close> of \<open>slice(i, i + concurrencyLimit)\<close>.
  \<open>batch.map(processTask)\<close> runs every task up to its \<open>await\<close>, in order. The encoder
  calls then settle in the order of their settle times (submission order among equal
  times), and each continuation runs to its end before the next one starts.
  \<open>Promise.all\<close> never settles when one of the encoder calls never does.
\<close>

fun awaitAll :: "Env \<Rightarrow> nat list \<Rightarrow> World \<Rightarrow> (thrown \<times> World) + World" where
  "awaitAll env [] w = Inr w"
| "awaitAll env (k # ks) w =
     (case processTask_settled env k w of
        Inl e \<Rightarrow> Inl e
      | Inr w' \<Rightarrow> awaitAll env ks w')"

definition processGroup :: "Env \<Rightarrow> nat list \<Rightarrow> World \<Rightarrow> ((thrown \<times> World) + World) option" where
  "processGroup env ks w =
     (let w = fold processTask_begin ks w
      in if list_ex (\<lambda>k. convertFileToSvg env k = Pending) ks then None
         else Some (awaitAll env (sort_key (settleTime env) ks) w))"

partial_function (option) processGroups ::
  "Env \<Rightarrow> nat \<Rightarrow> nat \<Rightarrow> World \<Rightarrow> ((thrown \<times> World) + World) option" where
  "processGroups env concurrencyLimit i w =
     (if i < length (tasks (batchTask w))
      then (case processGroup env
                   [i ..< min (i + concurrencyLimit) (length (tasks (batchTask w)))] w of
              None \<Rightarrow> None
            | Some (Inl e) \<Rightarrow> Some (Inl e)
            | Some (Inr w') \<Rightarrow> processGroups env concurrencyLimit (i + concurrencyLimit) w')
      else Some (Inr w))"

definition convertBatchTask :: "Env \<Rightarrow> World \<Rightarrow> ((thrown + unit) \<times> World) option" where
  "convertBatchTask env w =
     (let w = w\<lparr>batchTask := (batchTask w)\<lparr>status_b := PROCESSING\<rparr>\<rparr>;
          concurrencyLimit = min (maxWorkers env) (length (tasks (batchTask w)))
      in case processGroups env concurrencyLimit 0 w of
           None \<Rightarrow> None
         | Some (Inl (e, w')) \<Rightarrow>
             (let w' = w'\<lparr>batchTask := (batchTask w')\<lparr>status_b := FAILED\<rparr>\<rparr>;
                  w' = w'\<lparr>batchLog := batchLog w' @ [batchTask w']\<rparr>
              in Some (Inl e, w'))
         | Some (Inr w') \<Rightarrow> Some (Inr (), updateBatchProgress w'))"

subsection \<open>cancelBatchTask\<close>

definition cancelTask :: "ConversionTask \<Rightarrow> ConversionTask" where
  \<comment> \<open>the body of the \<open>forEach\<close>\<close>
  "cancelTask task =
     (if status task = PENDING \<or> status task = PROCESSING
      then task\<lparr>status := FAILED, error := Some MSG_TASK_CANCELLED\<rparr>
      else task)"

definition cancelBatchTask :: "BatchConversionTask \<Rightarrow> BatchConversionTask" where
  "cancelBatchTask b = b\<lparr>tasks := map cancelTask (tasks b), status_b := FAILED\<rparr>"

section \<open>StorageService (storage.ts)\<close>

text \<open>
  A history record holds its batch by reference while it is in memory, and by value once
  it is stored: the record type is parametric in what \<open>batch\<close> is. The live batch objects
  are the heap \<open>liveBatches\<close>, from addresses to their present contents.
\<close>

record 'b ConversionHistory =
  id_h :: string
  batch :: 'b
  savedAt :: nat

record StorageItem =
  id_s :: string
  data :: "BatchConversionTask ConversionHistory"
  timestamp :: nat

text \<open>
  \<open>db\<close> tells whether \<open>this.db\<close> holds a connection. \<open>objectStore\<close> holds the
  records of the object store \<open>conversion-history\<close> (key path \<open>id\<close>), one per key, in
  the order in which they were put.
\<close>

record Runtime =
  liveBatches :: "nat \<Rightarrow> BatchConversionTask"
  db :: bool
  objectStore :: "StorageItem list"

text \<open>What the browser does to a call: whether the database opens, whether the request succeeds.\<close>

record IDB =
  openOk :: bool
  requestOk :: bool

definition MSG_OPEN_FAILED :: string where
  "MSG_OPEN_FAILED = ''cannot open the IndexedDB database''"

definition MSG_SAVE_FAILED :: string where
  "MSG_SAVE_FAILED = ''saving the history record failed''"

definition MSG_GET_ALL_FAILED :: string where
  "MSG_GET_ALL_FAILED = ''reading the history records failed''"

definition MSG_GET_FAILED :: string where
  "MSG_GET_FAILED = ''reading the history record failed''"

definition init :: "IDB \<Rightarrow> Runtime \<Rightarrow> ConversionError + Runtime" where
  "init idb rt =
     (if openOk idb then Inr (rt\<lparr>db := True\<rparr>)
      else Inl \<lparr>errorType = STORAGE_ERROR, message = MSG_OPEN_FAILED\<rparr>)"

definition ensureOpen :: "IDB \<Rightarrow> Runtime \<Rightarrow> ConversionError + Runtime" where
  \<comment> \<open>\<open>if (!this.db) await this.init()\<close>\<close>
  "ensureOpen idb rt = (if \<not> db rt then init idb rt else Inr rt)"

text \<open>
  The object store's \<open>put\<close> stores a structured clone of its argument, under the key of
  the argument, in place of any record with that key. The clone of a history record holds
  the contents the batch object has at that moment.
\<close>

definition structuredClone ::
  "(nat \<Rightarrow> BatchConversionTask) \<Rightarrow> nat ConversionHistory \<Rightarrow> BatchConversionTask ConversionHistory" where
  "structuredClone heap history =
     \<lparr>id_h = id_h history, batch = heap (batch history), savedAt = savedAt history\<rparr>"

definition put :: "StorageItem \<Rightarrow> StorageItem list \<Rightarrow> StorageItem list" where
  "put item items = filter (\<lambda>x. id_s x \<noteq> id_s item) items @ [item]"

definition saveHistory ::
  "IDB \<Rightarrow> nat \<Rightarrow> nat ConversionHistory \<Rightarrow> Runtime \<Rightarrow> ConversionError + Runtime" where
  \<comment> \<open>the second argument is what \<open>Date.now()\<close> returns\<close>
  "saveHistory idb dateNow history rt =
     (case ensureOpen idb rt of
        Inl e \<Rightarrow> Inl e
      | Inr rt \<Rightarrow>
          (let storageItem = \<lparr>id_s = id_h history,
                              data = structuredClone (liveBatches rt) history,
                              timestamp = dateNow\<rparr>
           in if requestOk idb then Inr (rt\<lparr>objectStore := put storageItem (objectStore rt)\<rparr>)
              else Inl \<lparr>errorType = STORAGE_ERROR, message = MSG_SAVE_FAILED\<rparr>))"

text \<open>
  The index \<open>timestamp\<close> orders the records by their timestamp and, among equal
  timestamps, by their primary key; a cursor opened with \<open>prev\<close> walks it backwards.
  Keys that are strings compare code unit by code unit.
\<close>

definition openCursorPrev :: "StorageItem list \<Rightarrow> StorageItem list" where
  "openCursorPrev items = rev (sort_key (\<lambda>item. (timestamp item, id_s item)) items)"

definition getAllHistory ::
  "IDB \<Rightarrow> Runtime \<Rightarrow> ConversionError + (BatchConversionTask ConversionHistory list \<times> Runtime)" where
  "getAllHistory idb rt =
     (case ensureOpen idb rt of
        Inl e \<Rightarrow> Inl e
      | Inr rt \<Rightarrow>
          (if requestOk idb then Inr (map data (openCursorPrev (objectStore rt)), rt)
           else Inl \<lparr>errorType = STORAGE_ERROR, message = MSG_GET_ALL_FAILED\<rparr>))"

definition getHistoryById ::
  "IDB \<Rightarrow> string \<Rightarrow> Runtime \<Rightarrow> ConversionError + (BatchConversionTask ConversionHistory option \<times> Runtime)" where
  "getHistoryById idb recordId rt =
     (case ensureOpen idb rt of
        Inl e \<Rightarrow> Inl e
      | Inr rt \<Rightarrow>
          (if requestOk idb
           then Inr (map_option data (find (\<lambda>item. id_s item = recordId) (objectStore rt)), rt)
           else Inl \<lparr>errorType = STORAGE_ERROR, message = MSG_GET_FAILED\<rparr>))"

subsection \<open>saveBatchToHistory of the conversion service\<close>

definition saveBatchToHistory ::
  "string \<Rightarrow> nat \<Rightarrow> IDB \<Rightarrow> nat \<Rightarrow> nat \<Rightarrow> Runtime \<Rightarrow> ConversionError + (string \<times> Runtime)" where
  \<comment> \<open>the generated id, \<open>new Date()\<close>, the browser, \<open>Date.now()\<close>, the address of the batch\<close>
  "saveBatchToHistory newId date idb dateNow batchTask' rt =
     (let history = \<lparr>id_h = newId, batch = batchTask', savedAt = date\<rparr>
      in case saveHistory idb dateNow history rt of
           Inl e \<Rightarrow> Inl e
         | Inr rt' \<Rightarrow> Inr (id_h history, rt'))"

text \<open>Any later assignment to fields of the live batch object at address \<open>a\<close>.\<close>

definition mutateBatch :: "nat \<Rightarrow> (BatchConversionTask \<Rightarrow> BatchConversionTask) \<Rightarrow> Runtime \<Rightarrow> Runtime" where
  "mutateBatch a f rt = rt\<lparr>liveBatches := (liveBatches rt)(a := f (liveBatches rt a))\<rparr>"

section \<open>DownloadService (storage.ts)\<close>

record DownloadOptions =
  fileName_d :: string
  content :: string
  mimeType :: string

text \<open>
  The calls of \<open>downloadFile\<close> into the page (\<open>Blob\<close>, the object URL, the link) may
  throw, before or after the click that hands the file over. The files handed over are
  collected in a list.
\<close>

datatype DomBehaviour = DomSucceeds | ThrowsBeforeClick | ThrowsAfterClick

definition MSG_DOWNLOAD_FAILED :: string where
  "MSG_DOWNLOAD_FAILED = ''file download failed''"

definition MSG_TASK_NOT_DONE :: string where
  "MSG_TASK_NOT_DONE = ''task not completed or SVG content missing''"

definition downloadFile ::
  "DomBehaviour \<Rightarrow> DownloadOptions \<Rightarrow> DownloadOptions list
     \<Rightarrow> (ConversionError + unit) \<times> DownloadOptions list" where
  "downloadFile behaviour options delivered =
     (case behaviour of
        DomSucceeds \<Rightarrow> (Inr (), delivered @ [options])
      | ThrowsBeforeClick \<Rightarrow>
          (Inl \<lparr>errorType = DOWNLOAD_ERROR, message = MSG_DOWNLOAD_FAILED\<rparr>, delivered)
      | ThrowsAfterClick \<Rightarrow>
          (Inl \<lparr>errorType = DOWNLOAD_ERROR, message = MSG_DOWNLOAD_FAILED\<rparr>, delivered @ [options]))"

definition falsy :: "string option \<Rightarrow> bool" where
  \<comment> \<open>\<open>!task.svgContent\<close>: undefined or the empty string\<close>
  "falsy s = (case s of None \<Rightarrow> True | Some x \<Rightarrow> x = [])"

definition downloadTaskSvg ::
  "DomBehaviour \<Rightarrow> ConversionTask \<Rightarrow> DownloadOptions list
     \<Rightarrow> (ConversionError + unit) \<times> DownloadOptions list" where
  "downloadTaskSvg behaviour task delivered =
     (if status task \<noteq> COMPLETED \<or> falsy (svgContent task)
      then (Inl \<lparr>errorType = DOWNLOAD_ERROR, message = MSG_TASK_NOT_DONE\<rparr>, delivered)
      else downloadFile behaviour
             \<lparr>fileName_d = generateSvgFileName (name (file_t task)),
              content = (case svgContent task of Some svg \<Rightarrow> svg | None \<Rightarrow> []),
              mimeType = ''image/svg+xml''\<rparr> delivered)"

section \<open>What a settled encoder call leaves on its task\<close>

text \<open>
  The fields \<open>convertSingleTask\<close> has assigned once the encoder call has settled at
  time \<open>t\<close>, and what the claims below read of them.
\<close>

definition settledTask :: "outcome \<Rightarrow> nat \<Rightarrow> ConversionTask \<Rightarrow> ConversionTask" where
  "settledTask out t task =
     (case out of
        Resolved svg \<Rightarrow> task\<lparr>svgContent := Some svg, status := COMPLETED,
                              completedAt := Some t, progress := 100\<rparr>
      | Rejected e \<Rightarrow> task\<lparr>status := FAILED, error :=
                Some (case e of ErrorObject m \<Rightarrow> m | OtherValue \<Rightarrow> MSG_CONVERSION_FAILED)\<rparr>
      | Pending \<Rightarrow> task)"

definition recorded :: "outcome \<Rightarrow> ConversionTask \<Rightarrow> bool" where
  "recorded out task =
     (case out of
        Resolved svg \<Rightarrow> status task = COMPLETED \<and> svgContent task = Some svg
      | Rejected e \<Rightarrow> status task = FAILED \<and> error task =
            Some (case e of ErrorObject m \<Rightarrow> m | OtherValue \<Rightarrow> MSG_CONVERSION_FAILED)
      | Pending \<Rightarrow> False)"

section \<open>Concrete inputs\<close>

definition pngFile :: File where
  "pngFile = \<lparr>name = ''a.png'', type_f = ''image/png'', size_f = 2048\<rparr>"

definition bigFile :: File where
  "bigFile = \<lparr>name = ''big.png'', type_f = ''image/png'', size_f = 10485761\<rparr>"

definition textFile :: File where
  "textFile = \<lparr>name = ''notes.txt'', type_f = ''text/plain'', size_f = 12\<rparr>"

definition completedTask :: ConversionTask where
  "completedTask =
     \<lparr>id_t = ''1-a'', file_t = pngFile, fileName = ''a'', fileSize = 2048, status = COMPLETED,
      progress = 100, svgContent = Some ''<svg/>'', error = None, createdAt = 0,
      completedAt = Some 1\<rparr>"

definition completedBatch :: BatchConversionTask where
  "completedBatch =
     \<lparr>batchId = ''1-b'', tasks = [completedTask], totalProgress = Num 100,
      status_b = COMPLETED, createdAt_b = 0, completedAt_b = Some 1\<rparr>"

definition threeTasks :: World where
  "threeTasks =
     \<lparr>batchTask =
        \<lparr>batchId = ''1-b'',
         tasks = map (\<lambda>i. \<lparr>id_t = i, file_t = pngFile, fileName = ''a'', fileSize = 2048,
                           status = PENDING, progress = 0, svgContent = None, error = None,
                           createdAt = 0, completedAt = None\<rparr>) [''1-a'', ''1-b'', ''1-c''],
         totalProgress = Num 0, status_b = PENDING, createdAt_b = 0, completedAt_b = None\<rparr>,
      now = 0, taskLog = [], batchLog = []\<rparr>"

definition secondFails :: Env where
  "secondFails =
     \<lparr>hardwareConcurrency = Some 2,
      convertFileToSvg = (\<lambda>k. if k = 1 then Rejected (ErrorObject ''cannot load the image'')
                               else Resolved ''<svg/>''),
      settleTime = (\<lambda>k. 10 - k)\<rparr>"

definition emptyBatch :: World where
  "emptyBatch =
     \<lparr>batchTask = \<lparr>batchId = ''1-e'', tasks = [], totalProgress = Num 0, status_b = PENDING,
                   createdAt_b = 0, completedAt_b = None\<rparr>,
      now = 5, taskLog = [], batchLog = []\<rparr>"

section \<open>Lemmas\<close>

lemma cancelTask_idem: "cancelTask (cancelTask task) = cancelTask task"
  by (simp add: cancelTask_def)

lemma cancelTask_terminal:
  "status task = COMPLETED \<or> status task = FAILED \<Longrightarrow> cancelTask task = task"
  by (auto simp add: cancelTask_def)

lemma validateFiles_valid_filter:
  "fst (validateFiles files) = filter (\<lambda>f. validateImageFile f \<and> size_f f \<le> maxSize) files"
  by (induction files) (simp_all add: split_beta)

lemma updateTask_simps [simp]:
  "tasks (batchTask (updateTask k f w)) = (tasks (batchTask w))[k := f (tasks (batchTask w) ! k)]"
  "now (updateTask k f w) = now w"
  "batchLog (updateTask k f w) = batchLog w"
  "taskLog (updateTask k f w) = taskLog w"
  "totalProgress (batchTask (updateTask k f w)) = totalProgress (batchTask w)"
  "status_b (batchTask (updateTask k f w)) = status_b (batchTask w)"
  "completedAt_b (batchTask (updateTask k f w)) = completedAt_b (batchTask w)"
  by (simp_all add: updateTask_def)

lemma updateBatchProgress_frame [simp]:
  "tasks (batchTask (updateBatchProgress w)) = tasks (batchTask w)"
  "now (updateBatchProgress w) = now w"
  "taskLog (updateBatchProgress w) = taskLog w"
  by (simp_all add: updateBatchProgress_def Let_def)

lemma onTaskUpdated_frame [simp]:
  "tasks (batchTask (onTaskUpdated k w)) = tasks (batchTask w)"
  "now (onTaskUpdated k w) = now w"
  by (simp_all add: onTaskUpdated_def)

lemma advance_frame [simp]:
  "tasks (batchTask (advance t w)) = tasks (batchTask w)"
  "now (advance t w) = max (now w) t"
  by (simp_all add: advance_def)

lemma callOptional_frame:
  assumes "onProgress = None \<or> onProgress = Some onTaskUpdated"
  shows "tasks (batchTask (callOptional onProgress k w)) = tasks (batchTask w)"
    and "now (callOptional onProgress k w) = now w"
  using assms by (auto simp add: callOptional_def)

lemma updateProgress_frame:
  assumes "onProgress = None \<or> onProgress = Some onTaskUpdated"
  shows "tasks (batchTask (updateProgress onProgress k p w)) =
           (tasks (batchTask w))[k := (tasks (batchTask w) ! k)\<lparr>progress := min p 100\<rparr>]"
    and "now (updateProgress onProgress k p w) = now w"
  using assms by (simp_all add: updateProgress_def callOptional_frame)

lemma convertSingleTask_begin_tasks:
  assumes "onProgress = None \<or> onProgress = Some onTaskUpdated"
  shows "tasks (batchTask (convertSingleTask_begin onProgress k w)) =
           (tasks (batchTask w))[k := (tasks (batchTask w) ! k)\<lparr>status := PROCESSING, progress := 20\<rparr>]"
    and "now (convertSingleTask_begin onProgress k w) = now w"
proof -
  show "tasks (batchTask (convertSingleTask_begin onProgress k w)) =
           (tasks (batchTask w))[k := (tasks (batchTask w) ! k)\<lparr>status := PROCESSING, progress := 20\<rparr>]"
  proof (cases "k < length (tasks (batchTask w))")
    case True
    then show ?thesis
      by (simp add: convertSingleTask_begin_def Let_def updateProgress_frame [OF assms]
          callOptional_frame [OF assms])
  next
    case False
    then have "length (tasks (batchTask w)) \<le> k" by simp
    then show ?thesis
      by (simp add: convertSingleTask_begin_def Let_def updateProgress_frame [OF assms]
          callOptional_frame [OF assms] list_update_beyond)
  qed
  show "now (convertSingleTask_begin onProgress k w) = now w"
    by (simp add: convertSingleTask_begin_def Let_def updateProgress_frame [OF assms]
          callOptional_frame [OF assms])
qed

lemma convertSingleTask_settled_tasks:
  assumes "onProgress = None \<or> onProgress = Some onTaskUpdated"
  shows "tasks (batchTask (snd (convertSingleTask_settled onProgress k out w))) =
           (tasks (batchTask w))[k := settledTask out (now w) (tasks (batchTask w) ! k)]"
    and "now (snd (convertSingleTask_settled onProgress k out w)) = now w"
    and "fst (convertSingleTask_settled onProgress k out w) =
           (case out of Rejected e \<Rightarrow> Inl e | _ \<Rightarrow> Inr ())"
proof -
  show "tasks (batchTask (snd (convertSingleTask_settled onProgress k out w))) =
           (tasks (batchTask w))[k := settledTask out (now w) (tasks (batchTask w) ! k)]"
  proof (cases "k < length (tasks (batchTask w))")
    case True
    then show ?thesis
      by (cases out) (simp_all add: Let_def updateProgress_frame [OF assms]
          callOptional_frame [OF assms] settledTask_def)
  next
    case False
    then have "length (tasks (batchTask w)) \<le> k" by simp
    then show ?thesis
      by (cases out) (simp_all add: Let_def updateProgress_frame [OF assms]
          callOptional_frame [OF assms] settledTask_def list_update_beyond)
  qed
  show "now (snd (convertSingleTask_settled onProgress k out w)) = now w"
    by (cases out) (simp_all add: Let_def updateProgress_frame [OF assms]
          callOptional_frame [OF assms])
  show "fst (convertSingleTask_settled onProgress k out w) =
           (case out of Rejected e \<Rightarrow> Inl e | _ \<Rightarrow> Inr ())"
    by (cases out) (simp_all add: Let_def)
qed

lemma recorded_settledTask: "out \<noteq> Pending \<Longrightarrow> recorded out (settledTask out t task)"
  by (cases out) (simp_all add: recorded_def settledTask_def)

lemma recorded_terminal: "recorded out task \<Longrightarrow> status task = COMPLETED \<or> status task = FAILED"
  by (cases out) (simp_all add: recorded_def)

lemma processTask_begin_tasks:
  "tasks (batchTask (processTask_begin k w)) =
     (tasks (batchTask w))[k := (tasks (batchTask w) ! k)\<lparr>status := PROCESSING, progress := 20\<rparr>]"
  by (simp add: processTask_begin_def convertSingleTask_begin_tasks)

lemma fold_begin_length:
  "length (tasks (batchTask (fold processTask_begin ks w))) = length (tasks (batchTask w))"
  by (induction ks arbitrary: w) (simp_all add: processTask_begin_tasks)

lemma fold_begin_other:
  "j \<notin> set ks \<Longrightarrow> tasks (batchTask (fold processTask_begin ks w)) ! j = tasks (batchTask w) ! j"
  by (induction ks arbitrary: w) (simp_all add: processTask_begin_tasks)

lemma processTask_settled_Inr:
  "\<exists>w'. processTask_settled env k w = Inr w'
     \<and> tasks (batchTask w') =
         (tasks (batchTask w))[k := settledTask (convertFileToSvg env k)
            (max (now w) (settleTime env k)) (tasks (batchTask w) ! k)]"
proof -
  let ?r = "convertSingleTask_settled (Some onTaskUpdated) k (convertFileToSvg env k)
              (advance (settleTime env k) w)"
  have t: "tasks (batchTask (snd ?r)) =
         (tasks (batchTask w))[k := settledTask (convertFileToSvg env k)
            (max (now w) (settleTime env k)) (tasks (batchTask w) ! k)]"
    by (simp add: convertSingleTask_settled_tasks)
  have "processTask_settled env k w = Inr (snd ?r)"
    by (cases ?r) (auto simp add: processTask_settled_def split: sum.splits)
  with t show ?thesis by blast
qed

lemma awaitAll_settles:
  assumes "\<forall>k \<in> set ks. convertFileToSvg env k \<noteq> Pending"
  shows "\<exists>w'. awaitAll env ks w = Inr w'
     \<and> length (tasks (batchTask w')) = length (tasks (batchTask w))
     \<and> (\<forall>j < length (tasks (batchTask w)).
          (j \<in> set ks \<longrightarrow> recorded (convertFileToSvg env j) (tasks (batchTask w') ! j))
          \<and> (j \<notin> set ks \<longrightarrow> tasks (batchTask w') ! j = tasks (batchTask w) ! j))"
  using assms
proof (induction ks arbitrary: w)
  case Nil
  then show ?case by simp
next
  case (Cons k ks)
  obtain w1 where w1: "processTask_settled env k w = Inr w1"
    and t1: "tasks (batchTask w1) =
         (tasks (batchTask w))[k := settledTask (convertFileToSvg env k)
            (max (now w) (settleTime env k)) (tasks (batchTask w) ! k)]"
    using processTask_settled_Inr by blast
  have len1: "length (tasks (batchTask w1)) = length (tasks (batchTask w))"
    by (simp add: t1)
  from Cons.prems have np: "convertFileToSvg env k \<noteq> Pending"
    and rest: "\<forall>k \<in> set ks. convertFileToSvg env k \<noteq> Pending" by simp_all
  from Cons.IH [OF rest, of w1] obtain w' where w': "awaitAll env ks w1 = Inr w'"
    and len': "length (tasks (batchTask w')) = length (tasks (batchTask w1))"
    and inv: "\<forall>j < length (tasks (batchTask w1)).
          (j \<in> set ks \<longrightarrow> recorded (convertFileToSvg env j) (tasks (batchTask w') ! j))
          \<and> (j \<notin> set ks \<longrightarrow> tasks (batchTask w') ! j = tasks (batchTask w1) ! j)"
    by blast
  have "awaitAll env (k # ks) w = Inr w'" by (simp add: w1 w')
  moreover have "length (tasks (batchTask w')) = length (tasks (batchTask w))"
    by (simp add: len' len1)
  moreover have "\<forall>j < length (tasks (batchTask w)).
          (j \<in> set (k # ks) \<longrightarrow> recorded (convertFileToSvg env j) (tasks (batchTask w') ! j))
          \<and> (j \<notin> set (k # ks) \<longrightarrow> tasks (batchTask w') ! j = tasks (batchTask w) ! j)"
  proof (intro allI impI)
    fix j assume j: "j < length (tasks (batchTask w))"
    show "(j \<in> set (k # ks) \<longrightarrow> recorded (convertFileToSvg env j) (tasks (batchTask w') ! j))
          \<and> (j \<notin> set (k # ks) \<longrightarrow> tasks (batchTask w') ! j = tasks (batchTask w) ! j)"
    proof (cases "j \<in> set ks")
      case True
      with inv j len1 show ?thesis by simp
    next
      case False
      with inv j len1 have e: "tasks (batchTask w') ! j = tasks (batchTask w1) ! j" by simp
      show ?thesis
      proof (cases "j = k")
        case True
        with e j t1 np show ?thesis by (simp add: recorded_settledTask)
      next
        case False
        with e t1 \<open>j \<notin> set ks\<close> show ?thesis by simp
      qed
    qed
  qed
  ultimately show ?case by blast
qed

lemma processGroup_settles:
  assumes "\<forall>k \<in> set ks. convertFileToSvg env k \<noteq> Pending"
  shows "\<exists>w'. processGroup env ks w = Some (Inr w')
     \<and> length (tasks (batchTask w')) = length (tasks (batchTask w))
     \<and> (\<forall>j < length (tasks (batchTask w)).
          (j \<in> set ks \<longrightarrow> recorded (convertFileToSvg env j) (tasks (batchTask w') ! j))
          \<and> (j \<notin> set ks \<longrightarrow> tasks (batchTask w') ! j = tasks (batchTask w) ! j))"
proof -
  let ?w1 = "fold processTask_begin ks w"
  have a: "\<forall>k \<in> set (sort_key (settleTime env) ks). convertFileToSvg env k \<noteq> Pending"
    using assms by simp
  from awaitAll_settles [OF a, of ?w1] obtain w' where
    w': "awaitAll env (sort_key (settleTime env) ks) ?w1 = Inr w'"
    and len: "length (tasks (batchTask w')) = length (tasks (batchTask ?w1))"
    and inv: "\<forall>j < length (tasks (batchTask ?w1)).
          (j \<in> set (sort_key (settleTime env) ks) \<longrightarrow> recorded (convertFileToSvg env j) (tasks (batchTask w') ! j))
          \<and> (j \<notin> set (sort_key (settleTime env) ks) \<longrightarrow> tasks (batchTask w') ! j = tasks (batchTask ?w1) ! j)"
    by blast
  have np: "\<not> list_ex (\<lambda>k. convertFileToSvg env k = Pending) ks"
    using assms by (simp add: list_ex_iff)
  have "processGroup env ks w = Some (Inr w')"
    by (simp add: processGroup_def Let_def np w')
  moreover have "length (tasks (batchTask w')) = length (tasks (batchTask w))"
    by (simp add: len fold_begin_length)
  moreover have "\<forall>j < length (tasks (batchTask w)).
          (j \<in> set ks \<longrightarrow> recorded (convertFileToSvg env j) (tasks (batchTask w') ! j))
          \<and> (j \<notin> set ks \<longrightarrow> tasks (batchTask w') ! j = tasks (batchTask w) ! j)"
    using inv by (simp add: fold_begin_length fold_begin_other)
  ultimately show ?thesis by blast
qed

lemma processGroups_settles:
  assumes "0 < limit"
    and "\<forall>k < length (tasks (batchTask w)). convertFileToSvg env k \<noteq> Pending"
  shows "\<exists>w'. processGroups env limit i w = Some (Inr w')
     \<and> length (tasks (batchTask w')) = length (tasks (batchTask w))
     \<and> (\<forall>j < length (tasks (batchTask w)).
          (i \<le> j \<longrightarrow> recorded (convertFileToSvg env j) (tasks (batchTask w') ! j))
          \<and> (j < i \<longrightarrow> tasks (batchTask w') ! j = tasks (batchTask w) ! j))"
  using assms(2)
proof (induction "length (tasks (batchTask w)) - i" arbitrary: i w rule: less_induct)
  case less
  let ?n = "length (tasks (batchTask w))"
  show ?case
  proof (cases "i < ?n")
    case False
    then show ?thesis by (subst processGroups.simps) simp
  next
    case True
    let ?ks = "[i ..< min (i + limit) ?n]"
    have a: "\<forall>k \<in> set ?ks. convertFileToSvg env k \<noteq> Pending"
      using less.prems by simp
    from processGroup_settles [OF a, of w] obtain w1 where
      w1: "processGroup env ?ks w = Some (Inr w1)"
      and len1: "length (tasks (batchTask w1)) = ?n"
      and inv1: "\<forall>j < ?n.
          (j \<in> set ?ks \<longrightarrow> recorded (convertFileToSvg env j) (tasks (batchTask w1) ! j))
          \<and> (j \<notin> set ?ks \<longrightarrow> tasks (batchTask w1) ! j = tasks (batchTask w) ! j)"
      by blast
    have m: "length (tasks (batchTask w1)) - (i + limit) < ?n - i"
      using True assms(1) len1 by simp
    have p: "\<forall>k < length (tasks (batchTask w1)). convertFileToSvg env k \<noteq> Pending"
      using less.prems len1 by simp
    from less.hyps [OF m p] obtain w' where
      w': "processGroups env limit (i + limit) w1 = Some (Inr w')"
      and len': "length (tasks (batchTask w')) = length (tasks (batchTask w1))"
      and inv': "\<forall>j < length (tasks (batchTask w1)).
          (i + limit \<le> j \<longrightarrow> recorded (convertFileToSvg env j) (tasks (batchTask w') ! j))
          \<and> (j < i + limit \<longrightarrow> tasks (batchTask w') ! j = tasks (batchTask w1) ! j)"
      by blast
    have "processGroups env limit i w = Some (Inr w')"
      using True by (subst processGroups.simps) (simp add: w1 w')
    moreover have "length (tasks (batchTask w')) = ?n" by (simp add: len' len1)
    moreover have "\<forall>j < ?n.
          (i \<le> j \<longrightarrow> recorded (convertFileToSvg env j) (tasks (batchTask w') ! j))
          \<and> (j < i \<longrightarrow> tasks (batchTask w') ! j = tasks (batchTask w) ! j)"
    proof (intro allI impI)
      fix j assume j: "j < ?n"
      show "(i \<le> j \<longrightarrow> recorded (convertFileToSvg env j) (tasks (batchTask w') ! j))
          \<and> (j < i \<longrightarrow> tasks (batchTask w') ! j = tasks (batchTask w) ! j)"
      proof (cases "j < i + limit")
        case True
        with inv' j len1 have e: "tasks (batchTask w') ! j = tasks (batchTask w1) ! j" by simp
        from inv1 j True show ?thesis by (auto simp add: e)
      next
        case False
        with inv' j len1 show ?thesis by simp
      qed
    qed
    ultimately show ?thesis by blast
  qed
qed

lemma toDouble_1: "toDouble 1 = 1"
  by code_simp

lemma toDouble_100: "toDouble 100 = 100"
  by code_simp

lemma Math_round_100: "Math_round (Num 100) = Num 100"
  by code_simp

lemma full_progress: "0 < n \<Longrightarrow> Math_round (js_times100 (js_divide n n)) = Num 100"
  by (simp add: js_divide_def toDouble_1 toDouble_100 Math_round_100 del: Math_round.simps)

lemma filter_all_terminal:
  "list_all P xs \<Longrightarrow> length (filter P xs) = length xs"
  by (induction xs) simp_all

lemma updateBatchProgress_all_terminal:
  assumes "list_all (\<lambda>task. status task = COMPLETED \<or> status task = FAILED) (tasks (batchTask w))"
    and "tasks (batchTask w) \<noteq> []"
  shows "totalProgress (batchTask (updateBatchProgress w)) = Num 100"
    and "status_b (batchTask (updateBatchProgress w)) =
          (if list_ex (\<lambda>task. status task = FAILED) (tasks (batchTask w)) then FAILED else COMPLETED)"
    and "completedAt_b (batchTask (updateBatchProgress w)) = Some (now w)"
  using assms
  by (simp_all add: updateBatchProgress_def Let_def filter_all_terminal full_progress)

section \<open>The claims\<close>

subsection \<open>C2: createTask\<close>

text \<open>
  Claim C2, as it is stated, fails: \<open>createTask\<close> looks at the kind of the file only,
  and makes a task of a PNG file of 10 MiB and one byte.
\<close>

theorem createTask_oversize_counterexample:
  "validateImageFile bigFile \<and> size_f bigFile > 10 * 1024 * 1024
   \<and> createTask ''1-x'' 7 bigFile =
       Inr \<lparr>id_t = ''1-x'', file_t = bigFile, fileName = ''big'', fileSize = 10485761,
            status = PENDING, progress = 0, svgContent = None, error = None, createdAt = 7,
            completedAt = None\<rparr>"
  by (simp add: createTask_def validateImageFile_def supportedTypes_def bigFile_def
      getFileNameWithoutExtension_def)

text \<open>
  Claim C2, amended: \<open>createTask\<close> returns a task (with the generated id, pending,
  progress 0, no result, no error) exactly when the kind of the file is supported, whatever
  its size, and fails with an error of type \<open>FILE_READ_ERROR\<close> exactly when the kind is
  not supported. The ceiling of 10 MiB is applied by \<open>validateFiles\<close> of the upload
  component, which keeps the files of a supported kind and of at most 10 MiB.
\<close>

theorem createTask_checks_kind_only:
  "(validateImageFile f \<longrightarrow>
      (\<exists>task. createTask newId date f = Inr task \<and> id_t task = newId \<and> file_t task = f
         \<and> fileSize task = size_f f \<and> status task = PENDING \<and> progress task = 0
         \<and> svgContent task = None \<and> error task = None \<and> completedAt task = None))
   \<and> (\<not> validateImageFile f \<longrightarrow>
      (\<exists>e. createTask newId date f = Inl e \<and> errorType e = FILE_READ_ERROR))
   \<and> fst (validateFiles files) =
       filter (\<lambda>f. validateImageFile f \<and> size_f f \<le> 10 * 1024 * 1024) files"
  using validateFiles_valid_filter [of files]
  by (simp add: createTask_def maxSize_def)

theorem createTask_checks_kind_only_witness:
  "(\<exists>task. createTask ''1-x'' 7 bigFile = Inr task \<and> status task = PENDING \<and> progress task = 0)
   \<and> (\<exists>e. createTask ''1-y'' 7 textFile = Inl e \<and> errorType e = FILE_READ_ERROR)
   \<and> fst (validateFiles [pngFile, bigFile, textFile]) = [pngFile]"
proof -
  have a: "validateImageFile bigFile"
    by (simp add: validateImageFile_def supportedTypes_def bigFile_def)
  have b: "\<not> validateImageFile textFile"
    by (simp add: validateImageFile_def supportedTypes_def textFile_def)
  have c: "validateImageFile pngFile"
    by (simp add: validateImageFile_def supportedTypes_def pngFile_def)
  have d: "size_f pngFile \<le> 10 * 1024 * 1024" "\<not> size_f bigFile \<le> 10 * 1024 * 1024"
    by (simp_all add: pngFile_def bigFile_def)
  show ?thesis
    using createTask_checks_kind_only [of bigFile "''1-x''" 7 "[pngFile, bigFile, textFile]"]
      createTask_checks_kind_only [of textFile "''1-y''" 7 "[]"] a b c d
    by auto
qed

subsection \<open>C3: convertBatchTask on a batch that is not empty\<close>

text \<open>
  Claim C3: when the batch is not empty and every encoder call settles, \<open>convertBatchTask\<close>
  resolves (it neither rejects nor hangs); the outcome of each encoder call is recorded on
  its task (a rejection as status failed and the error message); every task is completed
  or failed, and \<open>totalProgress\<close> is 100.
\<close>

theorem convertBatchTask_resolves:
  assumes "tasks (batchTask w) \<noteq> []"
    and "\<forall>k < length (tasks (batchTask w)). convertFileToSvg env k \<noteq> Pending"
  shows "\<exists>w'. convertBatchTask env w = Some (Inr (), w')
     \<and> length (tasks (batchTask w')) = length (tasks (batchTask w))
     \<and> (\<forall>k < length (tasks (batchTask w)).
           recorded (convertFileToSvg env k) (tasks (batchTask w') ! k))
     \<and> list_all (\<lambda>task. status task = COMPLETED \<or> status task = FAILED) (tasks (batchTask w'))
     \<and> totalProgress (batchTask w') = Num 100"
proof -
  let ?w0 = "w\<lparr>batchTask := (batchTask w)\<lparr>status_b := PROCESSING\<rparr>\<rparr>"
  let ?limit = "min (maxWorkers env) (length (tasks (batchTask ?w0)))"
  have mw: "0 < maxWorkers env"
    by (simp add: maxWorkers_def split: option.splits)
  have lim: "0 < ?limit" using mw assms(1) by simp
  have np: "\<forall>k < length (tasks (batchTask ?w0)). convertFileToSvg env k \<noteq> Pending"
    using assms(2) by simp
  from processGroups_settles [OF lim np, of 0] obtain w1 where
    w1: "processGroups env ?limit 0 ?w0 = Some (Inr w1)"
    and len1: "length (tasks (batchTask w1)) = length (tasks (batchTask ?w0))"
    and inv1: "\<forall>j < length (tasks (batchTask ?w0)).
          (0 \<le> j \<longrightarrow> recorded (convertFileToSvg env j) (tasks (batchTask w1) ! j))
          \<and> (j < 0 \<longrightarrow> tasks (batchTask w1) ! j = tasks (batchTask ?w0) ! j)"
    by blast
  let ?w' = "updateBatchProgress w1"
  have r: "convertBatchTask env w = Some (Inr (), ?w')"
    using w1 by (simp add: convertBatchTask_def Let_def)
  have len: "length (tasks (batchTask ?w')) = length (tasks (batchTask w))"
    using len1 by simp
  have rec: "\<forall>k < length (tasks (batchTask w)).
           recorded (convertFileToSvg env k) (tasks (batchTask ?w') ! k)"
    using inv1 by simp
  have term1: "list_all (\<lambda>task. status task = COMPLETED \<or> status task = FAILED) (tasks (batchTask w1))"
    unfolding list_all_length
  proof (intro allI impI)
    fix k assume "k < length (tasks (batchTask w1))"
    with len1 inv1 have "recorded (convertFileToSvg env k) (tasks (batchTask w1) ! k)" by simp
    then show "status (tasks (batchTask w1) ! k) = COMPLETED \<or> status (tasks (batchTask w1) ! k) = FAILED"
      by (rule recorded_terminal)
  qed
  have ne1: "tasks (batchTask w1) \<noteq> []" using len1 assms(1) by auto
  have tp: "totalProgress (batchTask ?w') = Num 100"
    using updateBatchProgress_all_terminal(1) [OF term1 ne1] .
  from r len rec term1 tp show ?thesis by simp
qed

theorem convertBatchTask_resolves_witness:
  "\<exists>w'. convertBatchTask secondFails threeTasks = Some (Inr (), w')
     \<and> length (tasks (batchTask w')) = 3
     \<and> status (tasks (batchTask w') ! 1) = FAILED
     \<and> error (tasks (batchTask w') ! 1) = Some ''cannot load the image''
     \<and> list_all (\<lambda>task. status task = COMPLETED \<or> status task = FAILED) (tasks (batchTask w'))
     \<and> totalProgress (batchTask w') = Num 100"
proof -
  have a: "tasks (batchTask threeTasks) \<noteq> []" by (simp add: threeTasks_def)
  have b: "\<forall>k < length (tasks (batchTask threeTasks)). convertFileToSvg secondFails k \<noteq> Pending"
    by (simp add: secondFails_def)
  have l: "length (tasks (batchTask threeTasks)) = 3" by (simp add: threeTasks_def)
  from convertBatchTask_resolves [OF a b] obtain w' where
    w': "convertBatchTask secondFails threeTasks = Some (Inr (), w')"
     "length (tasks (batchTask w')) = length (tasks (batchTask threeTasks))"
     "\<forall>k < length (tasks (batchTask threeTasks)).
           recorded (convertFileToSvg secondFails k) (tasks (batchTask w') ! k)"
     "list_all (\<lambda>task. status task = COMPLETED \<or> status task = FAILED) (tasks (batchTask w'))"
     "totalProgress (batchTask w') = Num 100"
    by blast
  from w'(3) l have "recorded (convertFileToSvg secondFails 1) (tasks (batchTask w') ! 1)" by simp
  then have "status (tasks (batchTask w') ! 1) = FAILED
     \<and> error (tasks (batchTask w') ! 1) = Some ''cannot load the image''"
    by (simp add: secondFails_def recorded_def)
  with w' l show ?thesis by simp
qed

subsection \<open>C5: cancelling a batch whose tasks are all terminal\<close>

text \<open>
  Claim C5, as it is stated, fails: a batch whose only task is completed, and whose status
  is completed, has the status failed after \<open>cancelBatchTask\<close>.
\<close>

theorem cancel_completed_batch_counterexample:
  "list_all (\<lambda>task. status task = COMPLETED \<or> status task = FAILED) (tasks completedBatch)
   \<and> status_b completedBatch = COMPLETED
   \<and> status_b (cancelBatchTask completedBatch) = FAILED"
  by (simp add: completedBatch_def completedTask_def cancelBatchTask_def)

text \<open>
  Claim C5, amended: on a batch whose tasks are all completed or failed,
  \<open>cancelBatchTask\<close> changes no field of any task and sets the status of the batch to
  failed, whatever it was; it changes nothing else, the completion date included.
\<close>

theorem cancel_terminal_batch:
  assumes "list_all (\<lambda>task. status task = COMPLETED \<or> status task = FAILED) (tasks b)"
  shows "cancelBatchTask b = b\<lparr>status_b := FAILED\<rparr>"
proof -
  have "map cancelTask (tasks b) = tasks b"
    using assms by (induction "tasks b" arbitrary: b) (auto simp add: list_all_iff cancelTask_terminal map_idI)
  then show ?thesis by (simp add: cancelBatchTask_def)
qed

theorem cancel_terminal_batch_witness:
  "cancelBatchTask completedBatch = completedBatch\<lparr>status_b := FAILED\<rparr>
   \<and> tasks (cancelBatchTask completedBatch) = [completedTask]"
proof -
  have h: "list_all (\<lambda>task. status task = COMPLETED \<or> status task = FAILED) (tasks completedBatch)"
    by (simp add: completedBatch_def completedTask_def)
  show ?thesis using cancel_terminal_batch [OF h] by (simp add: completedBatch_def)
qed

subsection \<open>C6: cancelBatchTask is idempotent\<close>

text \<open>
  Claim C6: calling \<open>cancelBatchTask\<close> twice leaves the batch and its tasks as calling
  it once does.
\<close>

theorem cancelBatchTask_idempotent:
  "cancelBatchTask (cancelBatchTask b) = cancelBatchTask b"
  by (simp add: cancelBatchTask_def cancelTask_idem)

subsection \<open>C9: downloadTaskSvg\<close>

text \<open>
  Claim C9, as it is stated, fails: for a completed task with a result document,
  \<open>downloadTaskSvg\<close> still throws a download error when the page throws inside
  \<open>downloadFile\<close>.
\<close>

theorem downloadTaskSvg_dom_failure_counterexample:
  "status completedTask = COMPLETED \<and> svgContent completedTask = Some ''<svg/>''
   \<and> downloadTaskSvg ThrowsBeforeClick completedTask [] =
       (Inl \<lparr>errorType = DOWNLOAD_ERROR, message = MSG_DOWNLOAD_FAILED\<rparr>, [])"
  by (simp add: downloadTaskSvg_def downloadFile_def completedTask_def falsy_def)

text \<open>
  Claim C9, amended: \<open>downloadTaskSvg\<close> throws the download error "task not completed
  or SVG content missing", and hands nothing over, when the status is not completed or
  the result document is absent or the empty string. For a completed task with a
  document that is not empty it calls \<open>downloadFile\<close>: the document is handed over under
  the name of the file with the extension \<open>.svg\<close> when the page does not throw, and the
  download error "file download failed" is thrown when it does.
\<close>

theorem downloadTaskSvg_outcomes:
  "(status task \<noteq> COMPLETED \<or> svgContent task = None \<or> svgContent task = Some [] \<longrightarrow>
      downloadTaskSvg behaviour task delivered =
        (Inl \<lparr>errorType = DOWNLOAD_ERROR, message = MSG_TASK_NOT_DONE\<rparr>, delivered))
   \<and> (status task = COMPLETED \<and> svgContent task = Some svg \<and> svg \<noteq> [] \<longrightarrow>
      (behaviour = DomSucceeds \<longrightarrow>
         downloadTaskSvg behaviour task delivered =
           (Inr (), delivered @ [\<lparr>fileName_d = generateSvgFileName (name (file_t task)),
                                  content = svg, mimeType = ''image/svg+xml''\<rparr>]))
      \<and> (behaviour \<noteq> DomSucceeds \<longrightarrow>
           fst (downloadTaskSvg behaviour task delivered) =
             Inl \<lparr>errorType = DOWNLOAD_ERROR, message = MSG_DOWNLOAD_FAILED\<rparr>))"
  by (cases behaviour) (auto simp add: downloadTaskSvg_def downloadFile_def falsy_def split: option.splits)

theorem downloadTaskSvg_outcomes_witness:
  "downloadTaskSvg DomSucceeds completedTask [] =
     (Inr (), [\<lparr>fileName_d = ''a.svg'', content = ''<svg/>'', mimeType = ''image/svg+xml''\<rparr>])
   \<and> downloadTaskSvg DomSucceeds (completedTask\<lparr>svgContent := Some []\<rparr>) [] =
     (Inl \<lparr>errorType = DOWNLOAD_ERROR, message = MSG_TASK_NOT_DONE\<rparr>, [])
   \<and> fst (downloadTaskSvg ThrowsAfterClick completedTask []) =
       Inl \<lparr>errorType = DOWNLOAD_ERROR, message = MSG_DOWNLOAD_FAILED\<rparr>"
proof -
  have n: "generateSvgFileName (name (file_t completedTask)) = ''a.svg''"
    by (simp add: generateSvgFileName_def getFileNameWithoutExtension_def completedTask_def pngFile_def)
  have s: "status completedTask = COMPLETED" "svgContent completedTask = Some ''<svg/>''"
    by (simp_all add: completedTask_def)
  have t1: "downloadTaskSvg DomSucceeds completedTask [] =
      (Inr (), [\<lparr>fileName_d = ''a.svg'', content = ''<svg/>'', mimeType = ''image/svg+xml''\<rparr>])"
    using downloadTaskSvg_outcomes [where task = completedTask and svg = "''<svg/>''"
          and behaviour = DomSucceeds and delivered = "[]"] n s by simp
  have t2: "downloadTaskSvg DomSucceeds (completedTask\<lparr>svgContent := Some []\<rparr>) [] =
     (Inl \<lparr>errorType = DOWNLOAD_ERROR, message = MSG_TASK_NOT_DONE\<rparr>, [])"
    using downloadTaskSvg_outcomes [where task = "completedTask\<lparr>svgContent := Some []\<rparr>"
          and svg = "''<svg/>''" and behaviour = DomSucceeds and delivered = "[]"] by simp
  have t3: "fst (downloadTaskSvg ThrowsAfterClick completedTask []) =
       Inl \<lparr>errorType = DOWNLOAD_ERROR, message = MSG_DOWNLOAD_FAILED\<rparr>"
    using downloadTaskSvg_outcomes [where task = completedTask and svg = "''<svg/>''"
          and behaviour = ThrowsAfterClick and delivered = "[]"] s by blast
  show ?thesis using t1 t2 t3 by blast
qed

subsection \<open>C10: convertBatchTask on an empty batch\<close>

text \<open>
  Claim C10: on a batch without tasks \<open>convertBatchTask\<close> resolves at once, with the
  status completed, the completion date set, and \<open>totalProgress\<close> the result of
  \<open>0 / 0\<close>, which is \<open>NaN\<close>.
\<close>

theorem convertBatchTask_empty:
  assumes "tasks (batchTask w) = []"
  shows "convertBatchTask env w =
     Some (Inr (),
       w\<lparr>batchTask := (batchTask w)\<lparr>totalProgress := NaN, status_b := COMPLETED,
                                    completedAt_b := Some (now w)\<rparr>,
         batchLog := batchLog w @ [(batchTask w)\<lparr>totalProgress := NaN, status_b := COMPLETED,
                                    completedAt_b := Some (now w)\<rparr>]\<rparr>)"
proof -
  let ?w0 = "w\<lparr>batchTask := (batchTask w)\<lparr>status_b := PROCESSING\<rparr>\<rparr>"
  have g: "processGroups env 0 0 ?w0 = Some (Inr ?w0)"
    using assms by (subst processGroups.simps) simp
  have u: "updateBatchProgress ?w0 =
       w\<lparr>batchTask := (batchTask w)\<lparr>totalProgress := NaN, status_b := COMPLETED,
                                    completedAt_b := Some (now w)\<rparr>,
         batchLog := batchLog w @ [(batchTask w)\<lparr>totalProgress := NaN, status_b := COMPLETED,
                                    completedAt_b := Some (now w)\<rparr>]\<rparr>"
    using assms by (simp add: updateBatchProgress_def Let_def js_divide_def)
  show ?thesis
    using assms g u by (simp add: convertBatchTask_def Let_def)
qed

theorem convertBatchTask_empty_witness:
  "\<exists>w'. convertBatchTask secondFails emptyBatch = Some (Inr (), w')
     \<and> status_b (batchTask w') = COMPLETED \<and> completedAt_b (batchTask w') = Some 5
     \<and> totalProgress (batchTask w') = NaN"
proof -
  have a: "tasks (batchTask emptyBatch) = []" by (simp add: emptyBatch_def)
  show ?thesis
    using convertBatchTask_empty [OF a, of secondFails] by (simp add: emptyBatch_def)
qed

end
